theory Spec2Isabelle
  imports Main "HOL-Library.Sublist" "HOL-Library.AList"
begin

section \<open>The upgrade handshake (utils/websocket)\<close>

text \<open>
  The header mapping of an incoming request: Node lower-cases header names, and a header
  that was not sent reads as \<open>undefined\<close>, here \<open>None\<close>.
\<close>

type_synonym IncomingHttpHeaders = "string \<rightharpoonup> string"

definition WEBSOCKET_MAGIC :: string where
  "WEBSOCKET_MAGIC = ''258EAFA5-E914-47DA-95CA-C5AB0DC85B11''"

definition CRLF :: string where
  "CRLF = [CHR 0x0D, CHR 0x0A]"

text \<open>
  JavaScript's coercion of a possibly missing string, as done by \<open>String(x)\<close> and by
  \<open>x + '...'\<close>: \<open>undefined\<close> becomes the nine characters \<open>undefined\<close>.
\<close>

fun js_String :: "string option \<Rightarrow> string" where
  "js_String None = ''undefined''"
| "js_String (Some s) = s"

text \<open>\<open>String.prototype.indexOf\<close>: the first position of the pattern, or \<open>-1\<close>.\<close>

fun indexOf_from :: "nat \<Rightarrow> string \<Rightarrow> string \<Rightarrow> int" where
  "indexOf_from i [] pat = (if pat = [] then int i else - 1)"
| "indexOf_from i (c # cs) pat =
     (if prefix pat (c # cs) then int i else indexOf_from (Suc i) cs pat)"

definition indexOf :: "string \<Rightarrow> string \<Rightarrow> int" where
  "indexOf s pat = indexOf_from 0 s pat"

text \<open>\<open>Array.prototype.join\<close>.\<close>

fun join :: "string \<Rightarrow> string list \<Rightarrow> string" where
  "join sep [] = []"
| "join sep [x] = x"
| "join sep (x # y # ys) = x @ sep @ join sep (y # ys)"

record HandshakeResult =
  responseHeaders :: string
  permessageDeflate :: bool

text \<open>
  \<open>createReponseHeaders\<close>. The hash comes from Node's \<open>crypto\<close> library,
  \<open>createHash('sha1').update(s).digest('base64')\<close>; the two library functions are the
  parameters \<open>sha1\<close> and \<open>base64\<close>.
\<close>

definition createReponseHeaders ::
  "(string \<Rightarrow> 'd) \<Rightarrow> ('d \<Rightarrow> string) \<Rightarrow> IncomingHttpHeaders \<Rightarrow> HandshakeResult" where
  "createReponseHeaders sha1 base64 incomingHeaders =
     (let acceptKey = incomingHeaders ''sec-websocket-key'';
          hash = base64 (sha1 (js_String acceptKey @ WEBSOCKET_MAGIC));
          lines = [''HTTP/1.1 101 Web Socket Protocol Handshake'', ''Upgrade: WebSocket'',
                   ''Connection: Upgrade'', ''Sec-WebSocket-Accept: '' @ hash];
          deflate = (indexOf (js_String (incomingHeaders ''sec-websocket-extensions''))
                       ''permessage-deflate'' \<noteq> - 1);
          lines' = (if deflate
                    then lines @ [''Sec-WebSocket-Extensions: permessage-deflate; server_max_window_bits=15'']
                    else lines)
      in \<lparr>responseHeaders = join CRLF lines' @ CRLF @ CRLF, permessageDeflate = deflate\<rparr>)"

text \<open>
  The spec's wording of the extension test, "a case-insensitive substring match": both
  strings are lower-cased (ASCII letters) before the search.
\<close>

definition ascii_lower :: "char \<Rightarrow> char" where
  "ascii_lower c =
     (case map_of (zip ''ABCDEFGHIJKLMNOPQRSTUVWXYZ'' ''abcdefghijklmnopqrstuvwxyz'') c of
        None \<Rightarrow> c
      | Some l \<Rightarrow> l)"

definition contains_case_insensitive :: "string \<Rightarrow> string \<Rightarrow> bool" where
  "contains_case_insensitive s pat = sublist (map ascii_lower pat) (map ascii_lower s)"

section \<open>The upgrade handler (server main)\<close>

record IncomingMessage =
  headers :: IncomingHttpHeaders
  url :: "string option"

text \<open>
  What the handler does with the socket: \<open>socket.end(text)\<close>; or \<open>socket.write\<close> of the
  response followed by \<open>handleWebSocket\<close> with the parsed options and the compression flag;
  or an exception of the \<open>URL\<close> constructor, which the handler does not catch.
\<close>

datatype 'o upgrade_outcome =
    SocketEnd string
  | Upgraded string 'o bool
  | Uncaught

text \<open>
  \<open>upgrade\<close>. The \<open>URL\<close> constructor and \<open>parseQueryConnectionOptions\<close> are parameters;
  \<open>None\<close> is a throw. A missing and an empty \<open>req.url\<close> are both falsy.
\<close>

definition upgrade ::
  "(string \<Rightarrow> 'u option) \<Rightarrow> ('u \<Rightarrow> 'o option) \<Rightarrow> (string \<Rightarrow> 'd) \<Rightarrow> ('d \<Rightarrow> string)
     \<Rightarrow> IncomingMessage \<Rightarrow> 'o upgrade_outcome" where
  "upgrade new_URL parseQueryConnectionOptions sha1 base64 req =
     (if headers req ''upgrade'' \<noteq> Some ''websocket'' \<or> url req = None \<or> url req = Some []
      then SocketEnd ''HTTP/1.1 400 Bad Request''
      else (case new_URL (the (url req)) of
              None \<Rightarrow> Uncaught
            | Some upgradeUrl \<Rightarrow>
                (case parseQueryConnectionOptions upgradeUrl of
                   None \<Rightarrow> SocketEnd ''HTTP/1.1 400 Bad Request''
                 | Some connectionOptions \<Rightarrow>
                     (let r = createReponseHeaders sha1 base64 (headers req)
                      in Upgraded (responseHeaders r) connectionOptions (permessageDeflate r)))))"

section \<open>The connection broker (connectionHandler)\<close>

text \<open>
  The connection types of the handshake message. The enum is declared outside this file;
  its members are truthy. \<open>Unrecognized n\<close> is the wire value \<open>n\<close> when it is none of the
  members, and a message without the field has \<open>None\<close>. The test
  \<open>!message.desiredConnectionType\<close> holds of a missing field and of the wire value 0.
\<close>

datatype ConnectionType = Management | ExtensionHost | Tunnel | Unrecognized int

definition falsy :: "ConnectionType option \<Rightarrow> bool" where
  "falsy t = (t = None \<or> t = Some (Unrecognized 0))"

record ConnectionOptions =
  reconnectionToken :: string
  reconnection :: bool

text \<open>
  The protocol object that \<open>handleWebSocket\<close> builds around the socket; \<open>connect\<close> reads its
  \<open>reconnectionToken\<close> and \<open>reconnection\<close>, which are those of the connection options.
  Sockets are numbered.
\<close>

record ServerProtocol = ConnectionOptions +
  socket :: nat
  compression :: bool

record HandshakeMessage =
  commit :: "string option"
  desiredConnectionType :: "ConnectionType option"

text \<open>
  Objects live in two stores and are named by their index there: the connection objects,
  and the inner \<open>Map\<close>s from token to connection that \<open>getCachedConnectionMap\<close> creates.
\<close>

type_synonym ref = nat

type_synonym map_ref = nat

text \<open>
  Modelled from the spec: the connection classes (\<open>ManagementConnection\<close>,
  \<open>ExtensionHostConnection\<close> and their common base) are not part of the sources at hand.
  A LogicalConnection has a type, the socket it currently owns (inside its protocol) and a
  state among Connecting, Online, Offline and Closed. The listeners registered on its
  \<open>onClose\<close> event are kept as data: the only listener this file registers deletes one token
  from one inner map, so a listener is that map and that token.
\<close>

datatype ConnectionState = Connecting | Online | Offline | Closed

record Connection =
  variant :: ConnectionType
  protocol :: ServerProtocol
  state :: ConnectionState
  onClose :: "(map_ref \<times> string) list"

text \<open>
  The errors that leave \<open>connect\<close>: one per \<open>throw\<close> site, one for each awaited call that
  may reject, and the \<open>TypeError\<close> of the runtime. The spec's name for each follows; the
  \<open>TypeError\<close> has none.
\<close>

datatype connect_error =
    HandshakeFailed
  | ExpectedDesiredConnectionType
  | TypeError
  | SessionNoLongerExists
  | TokenAlreadyInUse
  | UnknownDesiredConnectionType
  | SpawnFailed

datatype error_kind =
    HandshakeTimeout | UnknownConnectionType | StaleSession | TokenCollision | SpawnFailure
  | NotInTaxonomy

fun taxonomy :: "connect_error \<Rightarrow> error_kind" where
  "taxonomy HandshakeFailed = HandshakeTimeout"
| "taxonomy ExpectedDesiredConnectionType = UnknownConnectionType"
| "taxonomy TypeError = NotInTaxonomy"
| "taxonomy SessionNoLongerExists = StaleSession"
| "taxonomy TokenAlreadyInUse = TokenCollision"
| "taxonomy UnknownDesiredConnectionType = UnknownConnectionType"
| "taxonomy SpawnFailed = SpawnFailure"

text \<open>
  What \<open>this.connections\<close> evaluates to. The class declares its registry as \<open>_connections\<close>
  and no member \<open>connections\<close>, so the read goes to the base class \<open>IPCServer\<close>, which is not
  part of the sources at hand: there \<open>connections\<close> is an accessor that returns an array of
  the IPC connections. Either way, array or no member at all, the value has no method
  \<open>get\<close> and none that could take the place of \<open>Map.set\<close>, and calling a missing method
  throws a \<open>TypeError\<close>.
\<close>

datatype js_value = js_undefined | js_array

fun call_get :: "js_value \<Rightarrow> ConnectionType \<Rightarrow> connect_error + map_ref option" where
  "call_get js_undefined k = Inl TypeError"
| "call_get js_array k = Inl TypeError"

fun call_set :: "js_value \<Rightarrow> ConnectionType \<Rightarrow> map_ref \<Rightarrow> connect_error + unit" where
  "call_set js_undefined k v = Inl TypeError"
| "call_set js_array k v = Inl TypeError"

text \<open>
  The server and what it has done so far. \<open>private_connections\<close> is the field
  \<open>_connections\<close>, the registry as declared: a \<open>Map\<close> from type to inner map, created empty
  and never read or written again. \<open>connections\<close> is the inherited member just described.
  \<open>maps\<close> and \<open>heap\<close> are the two stores; a JavaScript \<open>Map\<close> iterates in insertion order,
  so an inner map is an association list, new keys appended. \<open>spawning\<close> holds the
  executions of \<open>connect\<close> suspended at \<open>await connection.spawn()\<close>, each with the connection,
  the protocol and the inner map it will go on with. The remaining fields record the calls
  made on collaborators, in order.
\<close>

record server_state =
  maxExtraOfflineConnections :: nat
  private_connections :: "(ConnectionType \<times> map_ref) list"
  connections :: js_value
  maps :: "(string \<times> ref) list list"
  heap :: "Connection list"
  spawning :: "(ref \<times> ServerProtocol \<times> map_ref) list"
  clientConnectEvents :: "(ServerProtocol \<times> ref) list"
  spawned :: "ref list"
  tunnels :: "ServerProtocol list"
  disposed :: "(ref \<times> string) list"
  protocolDisposed :: "(ServerProtocol \<times> connect_error) list"

definition initial_state :: server_state where
  "initial_state =
     \<lparr>maxExtraOfflineConnections = 0, private_connections = [], connections = js_array,
      maps = [], heap = [], spawning = [], clientConnectEvents = [], spawned = [],
      tunnels = [], disposed = [], protocolDisposed = []\<rparr>"

definition deref :: "server_state \<Rightarrow> ref \<Rightarrow> Connection option" where
  "deref s r = (if r < length (heap s) then Some (heap s ! r) else None)"

text \<open>The entries of one inner map.\<close>

definition bucket :: "server_state \<Rightarrow> map_ref \<Rightarrow> (string \<times> ref) list" where
  "bucket s connectionMap = (if connectionMap < length (maps s) then maps s ! connectionMap else [])"

text \<open>
  \<open>getCachedConnectionMap\<close>: \<open>this.connections.get\<close>, then, when that gave nothing, a new
  inner map and \<open>this.connections.set\<close>. The result is the state reached and either the
  error thrown or the inner map returned.
\<close>

definition getCachedConnectionMap ::
  "server_state \<Rightarrow> ConnectionType \<Rightarrow> server_state \<times> (connect_error + map_ref)" where
  "getCachedConnectionMap s ty =
     (case call_get (connections s) ty of
        Inl e \<Rightarrow> (s, Inl e)
      | Inr (Some connectionMap) \<Rightarrow> (s, Inr connectionMap)
      | Inr None \<Rightarrow>
          (let connectionMap = length (maps s);
               s1 = s\<lparr>maps := maps s @ [[]]\<rparr>
           in (case call_set (connections s1) ty connectionMap of
                 Inl e \<Rightarrow> (s1, Inl e)
               | Inr u \<Rightarrow> (s1, Inr connectionMap))))"

text \<open>\<open>connections.set(token, connection)\<close> and \<open>connections.delete(token)\<close> on one inner map.\<close>

definition bucket_set :: "map_ref \<Rightarrow> string \<Rightarrow> ref \<Rightarrow> server_state \<Rightarrow> server_state" where
  "bucket_set connectionMap tok r s =
     s\<lparr>maps := (maps s)[connectionMap := AList.update tok r (bucket s connectionMap)]\<rparr>"

definition bucket_delete :: "map_ref \<times> string \<Rightarrow> server_state \<Rightarrow> server_state" where
  "bucket_delete l s =
     s\<lparr>maps := (maps s)[fst l := AList.delete (snd l) (bucket s (fst l))]\<rparr>"

text \<open>
  Modelled from the spec: the constructor of a connection class is not part of the sources
  at hand. "Create a new LogicalConnection in state Connecting, bind \<open>newSocket\<close>,
  transition to Online": the new object is stored at the next free index.
\<close>

definition new_Connection :: "ConnectionType \<Rightarrow> ServerProtocol \<Rightarrow> server_state \<Rightarrow> ref \<times> server_state" where
  "new_Connection ty p s =
     (length (heap s),
      s\<lparr>heap := heap s @ [\<lparr>variant = ty, protocol = p, state = Online, onClose = []\<rparr>]\<rparr>)"

text \<open>\<open>connection.onClose(listener)\<close>: one more listener on the object.\<close>

definition add_onClose :: "ref \<Rightarrow> map_ref \<times> string \<Rightarrow> server_state \<Rightarrow> server_state" where
  "add_onClose r l s =
     (case deref s r of
        None \<Rightarrow> s
      | Some c \<Rightarrow> s\<lparr>heap := (heap s)[r := c\<lparr>onClose := onClose c @ [l]\<rparr>]\<rparr>)"

text \<open>
  Modelled from the spec: \<open>reconnect\<close> of the connection classes is not part of the sources
  at hand. "Rebind its socket to \<open>newSocket\<close>, transition to Online, return the existing
  LogicalConnection unchanged in identity": the object stays where it is in the store.
\<close>

definition reconnect :: "ref \<Rightarrow> ServerProtocol \<Rightarrow> server_state \<Rightarrow> server_state" where
  "reconnect r p s =
     (case deref s r of
        None \<Rightarrow> s
      | Some c \<Rightarrow> s\<lparr>heap := (heap s)[r := c\<lparr>protocol := p, state := Online\<rparr>]\<rparr>)"

text \<open>
  Modelled from the spec: \<open>dispose\<close> of the connection classes is not part of the sources at
  hand. A forced close moves the connection to Closed and the registry entry is removed,
  which in the code is the work of the \<open>onClose\<close> listeners; closing twice does nothing the
  second time.
\<close>

definition dispose :: "string \<Rightarrow> ref \<Rightarrow> server_state \<Rightarrow> server_state" where
  "dispose reason r s =
     (case deref s r of
        None \<Rightarrow> s
      | Some c \<Rightarrow>
          if state c = Closed then s
          else fold bucket_delete (onClose c)
                 (s\<lparr>heap := (heap s)[r := c\<lparr>state := Closed\<rparr>], disposed := disposed s @ [(r, reason)]\<rparr>))"

text \<open>
  Modelled from the spec: the \<open>offline\<close> property of the connection classes is not part of
  the sources at hand. \<open>typeof connection.offline !== 'undefined'\<close> holds of a connection in
  state Offline. A connection goes Offline when its socket closes without an explicit
  close: "transitions Online \<open>\<rightarrow>\<close> Offline, keeps the entry".
\<close>

definition offline :: "server_state \<Rightarrow> ref \<Rightarrow> bool" where
  "offline s r = (case deref s r of None \<Rightarrow> False | Some c \<Rightarrow> state c = Offline)"

definition setOffline :: "ref \<Rightarrow> server_state \<Rightarrow> server_state" where
  "setOffline r s =
     (case deref s r of
        None \<Rightarrow> s
      | Some c \<Rightarrow> if state c = Online then s\<lparr>heap := (heap s)[r := c\<lparr>state := Offline\<rparr>]\<rparr> else s)"

text \<open>
  \<open>disposeOldOfflineConnections\<close>. The array \<open>offline\<close> is taken once, in the iteration order
  of the map; the loop bound \<open>offline.length - maxExtraOfflineConnections\<close> may be negative,
  and then the loop does not run.
\<close>

definition disposeOldOfflineConnections :: "map_ref \<Rightarrow> server_state \<Rightarrow> server_state" where
  "disposeOldOfflineConnections connectionMap s =
     (let offl = filter (offline s) (map snd (bucket s connectionMap));
          mx = int (length offl) - int (maxExtraOfflineConnections s)
      in fold (dispose ''old'') (take (nat mx) offl) s)"

text \<open>
  The tail of \<open>connect\<close> after the \<open>switch\<close>: store the connection under the token, register
  the listener that deletes the token again, evict old offline connections.
\<close>

definition register_connection :: "map_ref \<Rightarrow> ServerProtocol \<Rightarrow> ref \<Rightarrow> server_state \<Rightarrow> server_state" where
  "register_connection connectionMap p r s =
     disposeOldOfflineConnections connectionMap
       (add_onClose r (connectionMap, reconnectionToken p)
          (bucket_set connectionMap (reconnectionToken p) r s))"

text \<open>
  \<open>connect\<close>, from the point where the awaited \<open>protocol.handshake()\<close> has delivered the
  message or rejected (\<open>None\<close>). The result is the state reached and, on the left, the error
  thrown. The ExtensionHost branch stops at \<open>await connection.spawn()\<close>: the execution is
  put aside in \<open>spawning\<close> and goes on in \<open>spawn_settled\<close>, so other hellos may be served in
  between. Logging is left out.
\<close>

definition connect ::
  "server_state \<Rightarrow> ServerProtocol \<Rightarrow> HandshakeMessage option
     \<Rightarrow> server_state \<times> (connect_error + unit)" where
  "connect s p handshake =
     (case handshake of
        None \<Rightarrow> (s, Inl HandshakeFailed)
      | Some message \<Rightarrow>
     (case desiredConnectionType message of
        None \<Rightarrow> (s, Inl ExpectedDesiredConnectionType)
      | Some ty \<Rightarrow>
          if ty = Unrecognized 0 then (s, Inl ExpectedDesiredConnectionType)
          else
          (case getCachedConnectionMap s ty of
             (s1, Inl e) \<Rightarrow> (s1, Inl e)
           | (s1, Inr connectionMap) \<Rightarrow>
          (let connection = map_of (bucket s1 connectionMap) (reconnectionToken p)
           in if reconnection p \<and> connection \<noteq> None then (reconnect (the connection) p s1, Inr ())
              else if reconnection p then (s1, Inl SessionNoLongerExists)
              else if connection \<noteq> None then (s1, Inl TokenAlreadyInUse)
              else (case ty of
                      Management \<Rightarrow>
                        (let (r, s2) = new_Connection Management p s1;
                             s3 = s2\<lparr>clientConnectEvents := clientConnectEvents s2 @ [(p, r)]\<rparr>
                         in (register_connection connectionMap p r s3, Inr ()))
                    | ExtensionHost \<Rightarrow>
                        (let (r, s2) = new_Connection ExtensionHost p s1
                         in (s2\<lparr>spawning := spawning s2 @ [(r, p, connectionMap)]\<rparr>, Inr ()))
                    | Tunnel \<Rightarrow> (s1\<lparr>tunnels := tunnels s1 @ [p]\<rparr>, Inr ())
                    | Unrecognized n \<Rightarrow> (s1, Inl UnknownDesiredConnectionType))))))"

text \<open>
  The rest of a suspended \<open>connect\<close>, run when \<open>connection.spawn()\<close> settles: on success the
  tail of \<open>connect\<close>; on failure the error reaches the \<open>catch\<close> of \<open>handleWebSocket\<close>, which
  disposes the protocol.
\<close>

definition spawn_settled :: "ref \<Rightarrow> bool \<Rightarrow> server_state \<Rightarrow> server_state" where
  "spawn_settled r ok s =
     (case find (\<lambda>x. fst x = r) (spawning s) of
        None \<Rightarrow> s
      | Some (r', p, connectionMap) \<Rightarrow>
          (let s1 = s\<lparr>spawning := filter (\<lambda>x. fst x \<noteq> r) (spawning s)\<rparr>
           in if ok then register_connection connectionMap p r (s1\<lparr>spawned := spawned s1 @ [r]\<rparr>)
              else s1\<lparr>protocolDisposed := protocolDisposed s1 @ [(p, SpawnFailed)]\<rparr>))"

text \<open>
  \<open>handleWebSocket\<close>: build the protocol around the socket, connect, and on any error
  dispose the protocol (which closes the socket) with the error's message.
\<close>

definition new_ServerProtocol :: "nat \<Rightarrow> ConnectionOptions \<Rightarrow> bool \<Rightarrow> ServerProtocol" where
  "new_ServerProtocol sock connectionOptions deflate =
     \<lparr>reconnectionToken = reconnectionToken connectionOptions,
      reconnection = reconnection connectionOptions,
      socket = sock, compression = deflate\<rparr>"

definition handleWebSocket ::
  "server_state \<Rightarrow> nat \<Rightarrow> ConnectionOptions \<Rightarrow> bool \<Rightarrow> HandshakeMessage option
     \<Rightarrow> server_state" where
  "handleWebSocket s sock connectionOptions deflate handshake =
     (let p = new_ServerProtocol sock connectionOptions deflate
      in (case connect s p handshake of
            (s', Inl error) \<Rightarrow> s'\<lparr>protocolDisposed := protocolDisposed s' @ [(p, error)]\<rparr>
          | (s', Inr u) \<Rightarrow> s'))"

text \<open>
  The events that change the server: an upgraded socket handed to \<open>handleWebSocket\<close>, a
  worker spawn settling, the socket of a connection dropping, and a connection closing
  for good.
\<close>

datatype event =
    Hello nat ConnectionOptions bool "HandshakeMessage option"
  | SpawnSettled ref bool
  | SocketDropped ref
  | ConnectionClosed ref

fun step :: "event \<Rightarrow> server_state \<Rightarrow> server_state" where
  "step (Hello sock opts deflate handshake) s = handleWebSocket s sock opts deflate handshake"
| "step (SpawnSettled r ok) s = spawn_settled r ok s"
| "step (SocketDropped r) s = setOffline r s"
| "step (ConnectionClosed r) s = dispose ''closed'' r s"

definition run :: "event list \<Rightarrow> server_state \<Rightarrow> server_state" where
  "run es s = fold step es s"

text \<open>
  A server on which nothing has happened but protocols being disposed: no connection
  object, no inner map, no entry in the registry, nothing spawned, relayed, notified or
  closed.
\<close>

definition untouched :: "server_state \<Rightarrow> bool" where
  "untouched s =
     (private_connections s = [] \<and> maps s = [] \<and> heap s = [] \<and> spawning s = [] \<and>
      clientConnectEvents s = [] \<and> spawned s = [] \<and> tunnels s = [] \<and> disposed s = [])"

section \<open>Sample inputs\<close>

text \<open>
  Requests, handshake messages and server states on which the properties below are
  exercised. The key is the sample nonce of the WebSocket standard. \<open>three_offline\<close> is a
  state put together by hand, with one inner map of three offline Management connections;
  no run of the server produces it.
\<close>

definition sample_key :: string where
  "sample_key = ''dGhlIHNhbXBsZSBub25jZQ==''"

definition plain_headers :: IncomingHttpHeaders where
  "plain_headers = [''upgrade'' \<mapsto> ''websocket'', ''sec-websocket-key'' \<mapsto> sample_key]"

definition deflate_headers :: IncomingHttpHeaders where
  "deflate_headers =
     [''upgrade'' \<mapsto> ''websocket'', ''sec-websocket-key'' \<mapsto> sample_key,
      ''sec-websocket-extensions'' \<mapsto> ''permessage-deflate; client_max_window_bits'']"

definition uppercase_headers :: IncomingHttpHeaders where
  "uppercase_headers =
     [''upgrade'' \<mapsto> ''websocket'', ''sec-websocket-key'' \<mapsto> sample_key,
      ''sec-websocket-extensions'' \<mapsto> ''PERMESSAGE-DEFLATE'']"

definition keyless_request :: IncomingMessage where
  "keyless_request =
     \<lparr>headers = [''upgrade'' \<mapsto> ''websocket''], url = Some ''/?reconnectionToken=t1''\<rparr>"

definition management_hello :: HandshakeMessage where
  "management_hello = \<lparr>commit = Some ''abc'', desiredConnectionType = Some Management\<rparr>"

definition tunnel_hello :: HandshakeMessage where
  "tunnel_hello = \<lparr>commit = Some ''abc'', desiredConnectionType = Some Tunnel\<rparr>"

definition unrecognized_hello :: HandshakeMessage where
  "unrecognized_hello = \<lparr>commit = Some ''abc'', desiredConnectionType = Some (Unrecognized 7)\<rparr>"

definition zero_hello :: HandshakeMessage where
  "zero_hello = \<lparr>commit = Some ''abc'', desiredConnectionType = Some (Unrecognized 0)\<rparr>"

definition typeless_hello :: HandshakeMessage where
  "typeless_hello = \<lparr>commit = Some ''abc'', desiredConnectionType = None\<rparr>"

definition fresh_options :: "string \<Rightarrow> ConnectionOptions" where
  "fresh_options tok = \<lparr>reconnectionToken = tok, reconnection = False\<rparr>"

definition reconnect_options :: "string \<Rightarrow> ConnectionOptions" where
  "reconnect_options tok = \<lparr>reconnectionToken = tok, reconnection = True\<rparr>"

definition offline_Management :: "nat \<Rightarrow> string \<Rightarrow> Connection" where
  "offline_Management sock tok =
     \<lparr>variant = Management, protocol = new_ServerProtocol sock (fresh_options tok) False,
      state = Offline, onClose = [(0, tok)]\<rparr>"

definition three_offline :: server_state where
  "three_offline =
     initial_state
       \<lparr>maps := [[(''t1'', 0), (''t2'', 1), (''t3'', 2)]],
        heap := [offline_Management 1 ''t1'', offline_Management 2 ''t2'',
                 offline_Management 3 ''t3'']\<rparr>"

section \<open>Properties of the handshake\<close>

lemma indexOf_from_lower: "indexOf_from i s pat = - 1 \<or> int i \<le> indexOf_from i s pat"
  by (induction s arbitrary: i) (auto, force)

lemma indexOf_from_found: "indexOf_from i s pat \<noteq> - 1 \<longleftrightarrow> sublist pat s"
proof (induction s arbitrary: i)
  case Nil
  show ?case by simp
next
  case (Cons c cs)
  show ?case
  proof (cases "prefix pat (c # cs)")
    case True
    then show ?thesis by auto
  next
    case False
    then show ?thesis using Cons [of "Suc i"] by (simp add: sublist_Cons_right)
  qed
qed

lemma indexOf_found: "indexOf s pat \<noteq> - 1 \<longleftrightarrow> sublist pat s"
  by (simp add: indexOf_def indexOf_from_found)

section \<open>What the broker does\<close>

text \<open>Line 37 throws, whatever the inherited member is.\<close>

lemma getCachedConnectionMap_throws: "getCachedConnectionMap s ty = (s, Inl TypeError)"
  by (cases "connections s") (simp_all add: getCachedConnectionMap_def)

text \<open>So \<open>connect\<close> never gets past line 87: it always throws, and changes nothing.\<close>

lemma connect_no_handshake: "connect s p None = (s, Inl HandshakeFailed)"
  by (simp add: connect_def)

lemma connect_falsy:
  "falsy (desiredConnectionType m) \<Longrightarrow> connect s p (Some m) = (s, Inl ExpectedDesiredConnectionType)"
  by (auto simp: connect_def falsy_def)

lemma connect_truthy:
  "desiredConnectionType m = Some ty \<Longrightarrow> ty \<noteq> Unrecognized 0 \<Longrightarrow>
     connect s p (Some m) = (s, Inl TypeError)"
  by (simp add: connect_def getCachedConnectionMap_throws)

lemma connect_throws: "\<exists>e. connect s p handshake = (s, Inl e)"
proof (cases handshake)
  case None
  then show ?thesis by (simp add: connect_no_handshake)
next
  case (Some m)
  show ?thesis
  proof (cases "falsy (desiredConnectionType m)")
    case True
    with Some show ?thesis by (simp add: connect_falsy)
  next
    case False
    then obtain ty where "desiredConnectionType m = Some ty" and "ty \<noteq> Unrecognized 0"
      by (auto simp: falsy_def)
    with Some show ?thesis by (simp add: connect_truthy)
  qed
qed

lemma handleWebSocket_falsy:
  "falsy (desiredConnectionType m) \<Longrightarrow>
     handleWebSocket s sock opts deflate (Some m) =
       s\<lparr>protocolDisposed := protocolDisposed s @
           [(new_ServerProtocol sock opts deflate, ExpectedDesiredConnectionType)]\<rparr>"
  by (simp add: handleWebSocket_def connect_falsy)

lemma handleWebSocket_truthy:
  "desiredConnectionType m = Some ty \<Longrightarrow> ty \<noteq> Unrecognized 0 \<Longrightarrow>
     handleWebSocket s sock opts deflate (Some m) =
       s\<lparr>protocolDisposed := protocolDisposed s @ [(new_ServerProtocol sock opts deflate, TypeError)]\<rparr>"
  by (simp add: handleWebSocket_def connect_truthy)

lemma handleWebSocket_throws:
  "\<exists>e. handleWebSocket s sock opts deflate handshake =
         s\<lparr>protocolDisposed := protocolDisposed s @ [(new_ServerProtocol sock opts deflate, e)]\<rparr>"
proof -
  obtain e where "connect s (new_ServerProtocol sock opts deflate) handshake = (s, Inl e)"
    using connect_throws by blast
  then have "handleWebSocket s sock opts deflate handshake =
         s\<lparr>protocolDisposed := protocolDisposed s @ [(new_ServerProtocol sock opts deflate, e)]\<rparr>"
    by (simp add: handleWebSocket_def)
  then show ?thesis by blast
qed

text \<open>Every run of the server leaves it untouched.\<close>

lemma untouched_initial: "untouched initial_state"
  by (simp add: untouched_def initial_state_def)

lemma untouched_step: "untouched s \<Longrightarrow> untouched (step e s)"
proof (cases e)
  case (Hello sock opts deflate handshake)
  assume u: "untouched s"
  obtain err where "handleWebSocket s sock opts deflate handshake =
      s\<lparr>protocolDisposed := protocolDisposed s @ [(new_ServerProtocol sock opts deflate, err)]\<rparr>"
    using handleWebSocket_throws by blast
  with u Hello show ?thesis by (simp add: untouched_def)
next
  case (SpawnSettled r ok)
  assume "untouched s"
  with SpawnSettled show ?thesis by (simp add: untouched_def spawn_settled_def)
next
  case (SocketDropped r)
  assume "untouched s"
  with SocketDropped show ?thesis by (simp add: untouched_def setOffline_def deref_def)
next
  case (ConnectionClosed r)
  assume "untouched s"
  with ConnectionClosed show ?thesis by (simp add: untouched_def dispose_def deref_def)
qed

lemma untouched_run: "untouched s \<Longrightarrow> untouched (run es s)"
  unfolding run_def by (induction es arbitrary: s) (simp_all add: untouched_step)

lemma untouched_reachable: "untouched (run es initial_state)"
  by (simp add: untouched_run untouched_initial)

lemma run_append: "run (es @ es') s = run es' (run es s)"
  by (simp add: run_def)

text \<open>
  \<open>disposeOldOfflineConnections\<close> itself, called on an inner map of three offline
  connections: it closes all three, in the order of the map, and empties the map.
\<close>

lemma disposeOldOfflineConnections_sample:
  "disposed (disposeOldOfflineConnections 0 three_offline) = [(0, ''old''), (1, ''old''), (2, ''old'')] \<and>
   bucket (disposeOldOfflineConnections 0 three_offline) 0 = [] \<and>
   map state (heap (disposeOldOfflineConnections 0 three_offline)) = [Closed, Closed, Closed]"
  by code_simp

section \<open>The claims\<close>

text \<open>
  C1. The claim: an accepted hello with \<open>reconnection\<close> false and an unseen token creates one
  new connection, binds the socket, stores it in the registry and returns it. The code: a
  fresh hello of any of the three known types makes \<open>connect\<close> throw the \<open>TypeError\<close> of line
  37; \<open>handleWebSocket\<close> disposes the protocol and changes nothing else, and after any run
  that ends with such a hello the server holds no connection object, no entry and has
  fired no connect notification.
\<close>

theorem fresh_hello_registers_nothing:
  assumes "desiredConnectionType m = Some ty"
    and "ty = Management \<or> ty = ExtensionHost \<or> ty = Tunnel"
    and "\<not> reconnection opts"
  shows "handleWebSocket s sock opts deflate (Some m) =
       s\<lparr>protocolDisposed := protocolDisposed s @ [(new_ServerProtocol sock opts deflate, TypeError)]\<rparr> \<and>
     untouched (run (es @ [Hello sock opts deflate (Some m)]) initial_state)"
proof -
  from assms(2) have "ty \<noteq> Unrecognized 0" by auto
  with assms(1) have "handleWebSocket s sock opts deflate (Some m) =
       s\<lparr>protocolDisposed := protocolDisposed s @ [(new_ServerProtocol sock opts deflate, TypeError)]\<rparr>"
    by (rule handleWebSocket_truthy)
  then show ?thesis using untouched_reachable by blast
qed

text \<open>C1 at the first hello a server receives: Management, token \<open>t1\<close>, not a reconnection.\<close>

theorem fresh_hello_registers_nothing_witness:
  "desiredConnectionType management_hello = Some Management \<and>
   \<not> reconnection (fresh_options ''t1'') \<and>
   handleWebSocket initial_state 1 (fresh_options ''t1'') False (Some management_hello) =
     initial_state\<lparr>protocolDisposed := protocolDisposed initial_state @
       [(new_ServerProtocol 1 (fresh_options ''t1'') False, TypeError)]\<rparr> \<and>
   untouched (run ([] @ [Hello 1 (fresh_options ''t1'') False (Some management_hello)]) initial_state)"
proof -
  have h: "desiredConnectionType management_hello = Some Management"
    "Management = Management \<or> Management = ExtensionHost \<or> Management = Tunnel"
    "\<not> reconnection (fresh_options ''t1'')"
    by code_simp+
  from fresh_hello_registers_nothing [OF h, of initial_state 1 False "[]"] h show ?thesis by blast
qed



text \<open>
  C3. The claim: a reconnection hello with an unknown token fails with StaleSession and
  leaves the registry unchanged. The code: it fails and leaves the whole server state
  unchanged, but the error is the \<open>TypeError\<close> of line 37, which is none of the spec's
  errors; the throw of line 99 is never reached.
\<close>

theorem reconnection_unknown_token_throws_TypeError:
  assumes "desiredConnectionType m = Some ty"
    and "ty \<noteq> Unrecognized 0"
    and "reconnection p"
  shows "connect s p (Some m) = (s, Inl TypeError) \<and>
     taxonomy TypeError \<noteq> StaleSession \<and>
     connect s p (Some m) \<noteq> (s, Inl SessionNoLongerExists)"
  using connect_truthy [OF assms(1,2), of s p] by simp

text \<open>C3 at the first hello a server receives: a Management reconnection with token \<open>t9\<close>.\<close>

theorem reconnection_unknown_token_throws_TypeError_witness:
  "desiredConnectionType management_hello = Some Management \<and>
   Management \<noteq> Unrecognized 0 \<and>
   reconnection (new_ServerProtocol 1 (reconnect_options ''t9'') False) \<and>
   connect initial_state (new_ServerProtocol 1 (reconnect_options ''t9'') False) (Some management_hello) =
     (initial_state, Inl TypeError) \<and>
   taxonomy TypeError \<noteq> StaleSession \<and>
   connect initial_state (new_ServerProtocol 1 (reconnect_options ''t9'') False) (Some management_hello) \<noteq>
     (initial_state, Inl SessionNoLongerExists)"
proof -
  have h: "desiredConnectionType management_hello = Some Management"
    "Management \<noteq> Unrecognized 0"
    "reconnection (new_ServerProtocol 1 (reconnect_options ''t9'') False)"
    by code_simp+
  from reconnection_unknown_token_throws_TypeError [OF h, of initial_state] h show ?thesis by blast
qed





text \<open>
  C6. When the request headers contain \<open>sec-websocket-key\<close>, the response carries the line
  \<open>Sec-WebSocket-Accept:\<close> followed by the base64 encoding of the SHA-1 hash of the key
  followed by the magic string \<open>258EAFA5-E914-47DA-95CA-C5AB0DC85B11\<close>, which has 36
  characters.
\<close>

theorem accept_value_is_base64_sha1:
  assumes "incomingHeaders ''sec-websocket-key'' = Some key"
  shows "responseHeaders (createReponseHeaders sha1 base64 incomingHeaders) =
       ''HTTP/1.1 101 Web Socket Protocol Handshake'' @ CRLF @
       ''Upgrade: WebSocket'' @ CRLF @
       ''Connection: Upgrade'' @ CRLF @
       ''Sec-WebSocket-Accept: '' @ base64 (sha1 (key @ ''258EAFA5-E914-47DA-95CA-C5AB0DC85B11'')) @ CRLF @
       (if permessageDeflate (createReponseHeaders sha1 base64 incomingHeaders)
        then ''Sec-WebSocket-Extensions: permessage-deflate; server_max_window_bits=15'' @ CRLF
        else []) @
       CRLF \<and>
     WEBSOCKET_MAGIC = ''258EAFA5-E914-47DA-95CA-C5AB0DC85B11'' \<and> length WEBSOCKET_MAGIC = 36"
  using assms by (simp add: createReponseHeaders_def Let_def WEBSOCKET_MAGIC_def)

text \<open>C6 at the sample key, with list reversal standing in for the hash.\<close>

theorem accept_value_is_base64_sha1_witness:
  "plain_headers ''sec-websocket-key'' = Some sample_key \<and>
   (responseHeaders (createReponseHeaders rev id plain_headers) =
       ''HTTP/1.1 101 Web Socket Protocol Handshake'' @ CRLF @
       ''Upgrade: WebSocket'' @ CRLF @
       ''Connection: Upgrade'' @ CRLF @
       ''Sec-WebSocket-Accept: '' @ id (rev (sample_key @ ''258EAFA5-E914-47DA-95CA-C5AB0DC85B11'')) @ CRLF @
       (if permessageDeflate (createReponseHeaders rev id plain_headers)
        then ''Sec-WebSocket-Extensions: permessage-deflate; server_max_window_bits=15'' @ CRLF
        else []) @
       CRLF \<and>
     WEBSOCKET_MAGIC = ''258EAFA5-E914-47DA-95CA-C5AB0DC85B11'' \<and> length WEBSOCKET_MAGIC = 36)"
proof -
  have k: "plain_headers ''sec-websocket-key'' = Some sample_key"
    by (simp add: plain_headers_def)
  from accept_value_is_base64_sha1
      [where incomingHeaders = plain_headers and ?sha1.0 = rev and ?base64.0 = id, OF k] k
  show ?thesis by blast
qed

text \<open>
  C7, as amended. The response is the status line and the three fixed header lines, each
  ended by CR LF, then the extension line when negotiated, then an empty line; the
  extension line is present, and \<open>permessageDeflate\<close> true, exactly when the extensions header
  contains \<open>permessage-deflate\<close> as a substring, letter case included (a missing header
  reads as \<open>undefined\<close>).
\<close>

theorem extension_negotiated_by_exact_substring:
  "responseHeaders (createReponseHeaders sha1 base64 incomingHeaders) =
       ''HTTP/1.1 101 Web Socket Protocol Handshake'' @ CRLF @
       ''Upgrade: WebSocket'' @ CRLF @
       ''Connection: Upgrade'' @ CRLF @
       ''Sec-WebSocket-Accept: '' @
         base64 (sha1 (js_String (incomingHeaders ''sec-websocket-key'') @ WEBSOCKET_MAGIC)) @ CRLF @
       (if sublist ''permessage-deflate'' (js_String (incomingHeaders ''sec-websocket-extensions''))
        then ''Sec-WebSocket-Extensions: permessage-deflate; server_max_window_bits=15'' @ CRLF
        else []) @
       CRLF \<and>
     permessageDeflate (createReponseHeaders sha1 base64 incomingHeaders) =
       sublist ''permessage-deflate'' (js_String (incomingHeaders ''sec-websocket-extensions''))"
  by (simp add: createReponseHeaders_def Let_def indexOf_found)

text \<open>The amended C7 on headers that offer the extension and on headers that do not.\<close>

theorem extension_negotiated_by_exact_substring_witness:
  "permessageDeflate (createReponseHeaders rev id deflate_headers) \<and>
   \<not> permessageDeflate (createReponseHeaders rev id plain_headers) \<and>
   responseHeaders (createReponseHeaders rev id deflate_headers) =
     ''HTTP/1.1 101 Web Socket Protocol Handshake'' @ CRLF @
     ''Upgrade: WebSocket'' @ CRLF @
     ''Connection: Upgrade'' @ CRLF @
     ''Sec-WebSocket-Accept: '' @ rev (sample_key @ WEBSOCKET_MAGIC) @ CRLF @
     ''Sec-WebSocket-Extensions: permessage-deflate; server_max_window_bits=15'' @ CRLF @
     CRLF"
proof -
  have a: "sublist ''permessage-deflate'' (js_String (deflate_headers ''sec-websocket-extensions''))"
    by (simp add: deflate_headers_def sublist_code)
  have b: "\<not> sublist ''permessage-deflate'' (js_String (plain_headers ''sec-websocket-extensions''))"
    by (simp add: plain_headers_def sublist_code)
  have k: "js_String (deflate_headers ''sec-websocket-key'') = sample_key"
    by (simp add: deflate_headers_def)
  from extension_negotiated_by_exact_substring [of rev id deflate_headers]
    extension_negotiated_by_exact_substring [of rev id plain_headers] a b k
  show ?thesis by simp
qed

text \<open>
  C7 as stated fails: the header \<open>PERMESSAGE-DEFLATE\<close> contains the token by a
  case-insensitive match, and the response neither enables compression nor carries the
  extension line.
\<close>

theorem extension_case_insensitive_counterexample:
  "contains_case_insensitive (js_String (uppercase_headers ''sec-websocket-extensions''))
     ''permessage-deflate'' \<and>
   \<not> permessageDeflate (createReponseHeaders rev id uppercase_headers) \<and>
   \<not> sublist ''Sec-WebSocket-Extensions''
       (responseHeaders (createReponseHeaders rev id uppercase_headers))"
  by code_simp

text \<open>
  C8, as amended. An upgrade request without \<open>sec-websocket-key\<close> is answered
  \<open>400 Bad Request\<close> only when its \<open>upgrade\<close> header is not \<open>websocket\<close>, its url is missing or
  empty, or its query options do not parse; otherwise it is upgraded with the 101 response
  whose accept value hashes \<open>undefined\<close> followed by the magic string.
\<close>

theorem upgrade_without_key:
  assumes "headers req ''sec-websocket-key'' = None"
  shows "upgrade new_URL parseQueryConnectionOptions sha1 base64 req =
     (if headers req ''upgrade'' \<noteq> Some ''websocket'' \<or> url req = None \<or> url req = Some []
      then SocketEnd ''HTTP/1.1 400 Bad Request''
      else (case new_URL (the (url req)) of
              None \<Rightarrow> Uncaught
            | Some upgradeUrl \<Rightarrow>
                (case parseQueryConnectionOptions upgradeUrl of
                   None \<Rightarrow> SocketEnd ''HTTP/1.1 400 Bad Request''
                 | Some connectionOptions \<Rightarrow>
                     Upgraded
                       (''HTTP/1.1 101 Web Socket Protocol Handshake'' @ CRLF @
                        ''Upgrade: WebSocket'' @ CRLF @
                        ''Connection: Upgrade'' @ CRLF @
                        ''Sec-WebSocket-Accept: '' @
                          base64 (sha1 ''undefined258EAFA5-E914-47DA-95CA-C5AB0DC85B11'') @ CRLF @
                        (if sublist ''permessage-deflate''
                              (js_String (headers req ''sec-websocket-extensions''))
                         then ''Sec-WebSocket-Extensions: permessage-deflate; server_max_window_bits=15'' @ CRLF
                         else []) @
                        CRLF)
                       connectionOptions
                       (sublist ''permessage-deflate''
                          (js_String (headers req ''sec-websocket-extensions''))))))"
  using assms
  by (simp add: upgrade_def createReponseHeaders_def Let_def indexOf_found WEBSOCKET_MAGIC_def
      split: option.splits)

text \<open>The amended C8 on a request with \<open>upgrade: websocket\<close>, a url and no key.\<close>

theorem upgrade_without_key_witness:
  "headers keyless_request ''sec-websocket-key'' = None \<and>
   upgrade Some Some rev id keyless_request =
     (if headers keyless_request ''upgrade'' \<noteq> Some ''websocket'' \<or> url keyless_request = None \<or>
         url keyless_request = Some []
      then SocketEnd ''HTTP/1.1 400 Bad Request''
      else (case Some (the (url keyless_request)) of
              None \<Rightarrow> Uncaught
            | Some upgradeUrl \<Rightarrow>
                (case Some upgradeUrl of
                   None \<Rightarrow> SocketEnd ''HTTP/1.1 400 Bad Request''
                 | Some connectionOptions \<Rightarrow>
                     Upgraded
                       (''HTTP/1.1 101 Web Socket Protocol Handshake'' @ CRLF @
                        ''Upgrade: WebSocket'' @ CRLF @
                        ''Connection: Upgrade'' @ CRLF @
                        ''Sec-WebSocket-Accept: '' @
                          id (rev ''undefined258EAFA5-E914-47DA-95CA-C5AB0DC85B11'') @ CRLF @
                        (if sublist ''permessage-deflate''
                              (js_String (headers keyless_request ''sec-websocket-extensions''))
                         then ''Sec-WebSocket-Extensions: permessage-deflate; server_max_window_bits=15'' @ CRLF
                         else []) @
                        CRLF)
                       connectionOptions
                       (sublist ''permessage-deflate''
                          (js_String (headers keyless_request ''sec-websocket-extensions''))))))"
proof -
  have k: "headers keyless_request ''sec-websocket-key'' = None"
    by (simp add: keyless_request_def)
  from upgrade_without_key
      [where req = keyless_request and new_URL = Some and parseQueryConnectionOptions = Some
         and ?sha1.0 = rev and ?base64.0 = id, OF k] k
  show ?thesis by blast
qed

text \<open>
  C8 as stated fails: that request is not answered \<open>400 Bad Request\<close>; it receives the 101
  response.
\<close>

theorem upgrade_without_key_counterexample:
  "headers keyless_request ''sec-websocket-key'' = None \<and>
   upgrade Some Some rev id keyless_request \<noteq> SocketEnd ''HTTP/1.1 400 Bad Request'' \<and>
   upgrade Some Some rev id keyless_request =
     Upgraded
       (''HTTP/1.1 101 Web Socket Protocol Handshake'' @ CRLF @
        ''Upgrade: WebSocket'' @ CRLF @
        ''Connection: Upgrade'' @ CRLF @
        ''Sec-WebSocket-Accept: '' @ rev ''undefined258EAFA5-E914-47DA-95CA-C5AB0DC85B11'' @ CRLF @
        CRLF)
       ''/?reconnectionToken=t1'' False"
  by code_simp

text \<open>
  C9. The claim: a hello whose \<open>desiredConnectionType\<close> is missing or unrecognized is rejected
  with UnknownConnectionType and the socket is closed, with no registry entry. The code:
  a missing type (and the wire value 0) is rejected at line 84 with the error the spec
  calls UnknownConnectionType; an unrecognized type other than 0 is rejected with the
  \<open>TypeError\<close> of line 37 instead, the throw of line 138 being never reached. In both cases
  the protocol is disposed and nothing else changes.
\<close>

theorem unknown_type_error:
  "(falsy (desiredConnectionType m) \<longrightarrow>
      handleWebSocket s sock opts deflate (Some m) =
        s\<lparr>protocolDisposed := protocolDisposed s @
            [(new_ServerProtocol sock opts deflate, ExpectedDesiredConnectionType)]\<rparr> \<and>
      taxonomy ExpectedDesiredConnectionType = UnknownConnectionType) \<and>
   (desiredConnectionType m = Some (Unrecognized n) \<and> n \<noteq> 0 \<longrightarrow>
      handleWebSocket s sock opts deflate (Some m) =
        s\<lparr>protocolDisposed := protocolDisposed s @
            [(new_ServerProtocol sock opts deflate, TypeError)]\<rparr> \<and>
      taxonomy TypeError \<noteq> UnknownConnectionType)"
proof -
  have "handleWebSocket s sock opts deflate (Some m) =
        s\<lparr>protocolDisposed := protocolDisposed s @
            [(new_ServerProtocol sock opts deflate, TypeError)]\<rparr>"
    if "desiredConnectionType m = Some (Unrecognized n)" and "n \<noteq> 0"
    by (rule handleWebSocket_truthy [OF that(1)]) (use that(2) in simp)
  then show ?thesis by (simp add: handleWebSocket_falsy)
qed

text \<open>C9 at a hello without a type, at the wire value 0 and at the unrecognized type 7.\<close>

theorem unknown_type_error_witness:
  "falsy (desiredConnectionType typeless_hello) \<and>
   falsy (desiredConnectionType zero_hello) \<and>
   desiredConnectionType unrecognized_hello = Some (Unrecognized 7) \<and>
   handleWebSocket initial_state 1 (fresh_options ''t1'') False (Some typeless_hello) =
     initial_state\<lparr>protocolDisposed := protocolDisposed initial_state @
       [(new_ServerProtocol 1 (fresh_options ''t1'') False, ExpectedDesiredConnectionType)]\<rparr> \<and>
   handleWebSocket initial_state 1 (fresh_options ''t1'') False (Some zero_hello) =
     initial_state\<lparr>protocolDisposed := protocolDisposed initial_state @
       [(new_ServerProtocol 1 (fresh_options ''t1'') False, ExpectedDesiredConnectionType)]\<rparr> \<and>
   handleWebSocket initial_state 1 (fresh_options ''t1'') False (Some unrecognized_hello) =
     initial_state\<lparr>protocolDisposed := protocolDisposed initial_state @
       [(new_ServerProtocol 1 (fresh_options ''t1'') False, TypeError)]\<rparr> \<and>
   taxonomy TypeError \<noteq> UnknownConnectionType"
proof -
  have a: "falsy (desiredConnectionType typeless_hello)" by code_simp
  have b: "falsy (desiredConnectionType zero_hello)" by code_simp
  have c: "desiredConnectionType unrecognized_hello = Some (Unrecognized 7)" by code_simp
  have d: "(7 :: int) \<noteq> 0" by simp
  from unknown_type_error [of typeless_hello initial_state 1 "fresh_options ''t1''" False 7]
    unknown_type_error [of zero_hello initial_state 1 "fresh_options ''t1''" False 7]
    unknown_type_error [of unrecognized_hello initial_state 1 "fresh_options ''t1''" False 7]
    a b c d
  show ?thesis by blast
qed

text \<open>
  C10. The claim: every accepted Tunnel hello creates a fresh relay, and a reused Tunnel
  token is treated by the StaleSession and TokenCollision rules. The code: a Tunnel hello,
  reconnection or not, makes \<open>connect\<close> throw the \<open>TypeError\<close> of line 37 before
  \<open>protocol.tunnel()\<close> and before either rule; no relay is started, on this hello or in any
  run of the server.
\<close>

theorem tunnel_hello_starts_no_relay:
  assumes "desiredConnectionType m = Some Tunnel"
  shows "connect s p (Some m) = (s, Inl TypeError) \<and>
     tunnels (fst (connect s p (Some m))) = tunnels s \<and>
     taxonomy TypeError \<noteq> StaleSession \<and> taxonomy TypeError \<noteq> TokenCollision \<and>
     tunnels (run es initial_state) = []"
proof -
  have "connect s p (Some m) = (s, Inl TypeError)"
    using assms by (rule connect_truthy) simp
  moreover have "tunnels (run es initial_state) = []"
    using untouched_reachable [of es] by (simp add: untouched_def)
  ultimately show ?thesis by simp
qed

text \<open>C10 at a fresh Tunnel hello and at the same token sent again as a reconnection.\<close>

theorem tunnel_hello_starts_no_relay_witness:
  "desiredConnectionType tunnel_hello = Some Tunnel \<and>
   connect initial_state (new_ServerProtocol 1 (fresh_options ''t1'') False) (Some tunnel_hello) =
     (initial_state, Inl TypeError) \<and>
   connect initial_state (new_ServerProtocol 2 (reconnect_options ''t1'') False) (Some tunnel_hello) =
     (initial_state, Inl TypeError) \<and>
   tunnels (run [Hello 1 (fresh_options ''t1'') False (Some tunnel_hello),
                 Hello 2 (reconnect_options ''t1'') False (Some tunnel_hello)] initial_state) = []"
proof -
  have t: "desiredConnectionType tunnel_hello = Some Tunnel" by code_simp
  from tunnel_hello_starts_no_relay [OF t, of initial_state
      "new_ServerProtocol 1 (fresh_options ''t1'') False"
      "[Hello 1 (fresh_options ''t1'') False (Some tunnel_hello),
        Hello 2 (reconnect_options ''t1'') False (Some tunnel_hello)]"]
    tunnel_hello_starts_no_relay [OF t, of initial_state
      "new_ServerProtocol 2 (reconnect_options ''t1'') False" "[]"] t
  show ?thesis by blast
qed

end
